theory Spec2Isabelle
  imports Complex_Main
begin

section \<open>The job queue manager of \<^verbatim>\<open>job_manager.py\<close>\<close>

text \<open>
  The program keeps a table of job records in one JSON file, \<^verbatim>\<open>jobs/queue.json\<close>, and
  talks to the operating system: the file system, the process table, the wall clock and
  the random source behind \<^verbatim>\<open>uuid.uuid4()\<close>. The embedding makes that environment an
  explicit record, \<open>world\<close>, which every operation takes and hands back. What the
  environment decides on its own (whether a file-system call succeeds, which process id a
  new child gets, how long a child runs and how it exits, which UUID is drawn) is read
  from oracle fields of the world, indexed by counters, so that a theorem about all
  worlds is a theorem about all such behaviours.
\<close>

subsection \<open>Job records\<close>

text \<open>
  A job is the dictionary built in \<^verbatim>\<open>submit_job\<close>, with its nine keys. Times are the
  readings of \<^verbatim>\<open>time.time()\<close>, in seconds, taken as exact rationals. \<open>None\<close> in \<open>pid\<close>,
  \<open>start_time\<close> and \<open>end_time\<close> is the JSON \<^verbatim>\<open>null\<close> that \<^verbatim>\<open>submit_job\<close> writes; \<open>None\<close>
  in \<open>timeout\<close> is a record without that key, for which the daemon reads the default.
  The state is the free-form string of the source.
\<close>

record job =
  job_id :: string
  name :: string
  cmd :: string
  state :: string
  pid :: "int option"
  submit_time :: rat
  start_time :: "rat option"
  end_time :: "rat option"
  timeout :: "int option"

definition TIMEOUT :: int where
  "TIMEOUT = 3600"

subsection \<open>The environment\<close>

text \<open>
  The content of the queue file is taken up to JSON parsing: either the text parses to a
  table of job records, or reading it raises (\<^verbatim>\<open>open\<close> or \<^verbatim>\<open>json.load\<close> fails). That
  \<^verbatim>\<open>json.load\<close> returns what \<^verbatim>\<open>json.dump\<close> wrote is the standard library's contract and
  is built into \<open>Table\<close>.
\<close>

datatype content = Unparseable | Table "job list"

datatype pstatus = NoProc | Foreign | Alive

datatype signal = SIG0 | SIGTERM | SIGKILL

datatype io_op = ReadStore | Mkstemp | Dump | Replace | OpenLog | Spawn | RenameLog

datatype exn = ProcessLookupError | PermissionError | TypeError | JSONDecodeError | OSError io_op

text \<open>Every line the program prints, one constructor for each \<^verbatim>\<open>print\<close> call.\<close>

datatype msg =
    Submitted string
  | SubmittedName string
  | SubmittedCommand string
  | JobNotFound string
  | CancelledQueued string
  | CancelledRunning string
  | KillFailed "int option"
  | CannotCancel string string
  | RunnerStarted
  | PressCtrlC
  | Orphaned string
  | Starting string string
  | JobDone string string
  | FailedToStart string exn
  | TimedOut string
  | RunnerStopped

record world =
  clock :: rat
  store :: "content option"
  tmp :: "content option"
  running_area :: "string set"
  finished_area :: "string set"
  procs :: "int \<Rightarrow> pstatus"
  signals :: "(int \<times> signal) list"
  launched :: "(string \<times> string) list"
  out :: "msg list"
  ticks :: nat
  spawned :: nat
  drawn :: nat
  io_ok :: "io_op \<Rightarrow> nat \<Rightarrow> bool"
  new_pid :: "nat \<Rightarrow> int"
  behaviour :: "nat \<Rightarrow> (rat \<times> int) option"
  uuid4 :: "nat \<Rightarrow> nat"

text \<open>
  \<open>store\<close> is \<^verbatim>\<open>jobs/queue.json\<close> (\<open>None\<close>: the file does not exist), \<open>tmp\<close> the temporary
  file of a write in progress, the two areas the names of the log files under
  \<^verbatim>\<open>jobs/running\<close> and \<^verbatim>\<open>jobs/finished\<close>. \<open>signals\<close> lists the signals delivered,
  \<open>launched\<close> the children started (job id and command), \<open>out\<close> what was printed.
  \<open>io_ok op n\<close> says whether the \<open>n\<close>-th file-system call, of kind \<open>op\<close>, succeeds;
  \<open>behaviour k\<close> is what the \<open>k\<close>-th child does: \<open>Some (d, rc)\<close> when it runs for \<open>d\<close>
  seconds and exits with status \<open>rc\<close>, \<open>None\<close> when it never exits.

  An operation returns, raises, or blocks for ever; the world it leaves is kept in all
  three cases.
\<close>

datatype 'a outcome = Returns 'a world | Raises exn world | Hangs world

definition tick :: "world \<Rightarrow> world" where
  "tick w = w\<lparr>ticks := Suc (ticks w)\<rparr>"

definition print :: "msg \<Rightarrow> world \<Rightarrow> world" where
  "print m w = w\<lparr>out := out w @ [m]\<rparr>"

subsection \<open>Job store\<close>

text \<open>
  \<^verbatim>\<open>atomic_write\<close>: \<^verbatim>\<open>mkstemp\<close> creates an empty temporary file (outside the
  \<^verbatim>\<open>try\<close>, so its failure leaves nothing behind); \<^verbatim>\<open>json.dump\<close> fills it and
  \<^verbatim>\<open>os.replace\<close> renames it over the queue file; when either raises, the handler unlinks
  the temporary file and raises again.
\<close>

definition atomic_write :: "job list \<Rightarrow> world \<Rightarrow> unit outcome" where
  "atomic_write data w =
     (if \<not> io_ok w Mkstemp (ticks w) then Raises (OSError Mkstemp) (tick w)
      else
        let w1 = (tick w)\<lparr>tmp := Some Unparseable\<rparr> in
        if \<not> io_ok w1 Dump (ticks w1) then Raises (OSError Dump) ((tick w1)\<lparr>tmp := None\<rparr>)
        else
          let w2 = (tick w1)\<lparr>tmp := Some (Table data)\<rparr> in
          if \<not> io_ok w2 Replace (ticks w2) then Raises (OSError Replace) ((tick w2)\<lparr>tmp := None\<rparr>)
          else Returns () ((tick w2)\<lparr>store := tmp w2, tmp := None\<rparr>))"

definition save_jobs :: "job list \<Rightarrow> world \<Rightarrow> unit outcome" where
  "save_jobs jobs w = atomic_write jobs w"

text \<open>The body of the \<^verbatim>\<open>try\<close> in \<^verbatim>\<open>load_jobs\<close>: open the file and parse it.\<close>

definition read_json :: "world \<Rightarrow> (job list) outcome" where
  "read_json w =
     (case store w of
        None \<Rightarrow> Raises (OSError ReadStore) w
      | Some Unparseable \<Rightarrow> Raises JSONDecodeError w
      | Some (Table js) \<Rightarrow> Returns js w)"

text \<open>\<^verbatim>\<open>load_jobs\<close>: no file, no jobs; and the bare \<^verbatim>\<open>except\<close> turns every failure into \<^verbatim>\<open>[]\<close>.\<close>

definition load_jobs :: "world \<Rightarrow> (job list) outcome" where
  "load_jobs w =
     (if store w = None then Returns [] w
      else
        case read_json w of
          Returns js w' \<Rightarrow> Returns js w'
        | Raises e w' \<Rightarrow> Returns [] w'
        | Hangs w' \<Rightarrow> Hangs w')"

subsection \<open>Job identifiers\<close>

text \<open>
  \<^verbatim>\<open>str(uuid.uuid4())\<close>: a UUID is a 128-bit integer, printed as 32 lower-case
  hexadecimal digits in groups of 8, 4, 4, 4 and 12 joined by hyphens. The job id is the
  first eight characters of that string.
\<close>

definition hexdigit :: "nat \<Rightarrow> char" where
  "hexdigit d = ''0123456789abcdef'' ! d"

fun hex_fixed :: "nat \<Rightarrow> nat \<Rightarrow> string" where
  "hex_fixed 0 n = []"
| "hex_fixed (Suc k) n = hex_fixed k (n div 16) @ [hexdigit (n mod 16)]"

definition uuid_hex :: "nat \<Rightarrow> string" where
  "uuid_hex u = hex_fixed 32 (u mod 2 ^ 128)"

definition str_uuid :: "nat \<Rightarrow> string" where
  "str_uuid u =
     (let h = uuid_hex u in
      take 8 h @ ''-'' @ take 4 (drop 8 h) @ ''-'' @ take 4 (drop 12 h) @ ''-'' @
      take 4 (drop 16 h) @ ''-'' @ drop 20 h)"

subsection \<open>Queue manager\<close>

text \<open>
  \<^verbatim>\<open>submit_job\<close> builds the record (drawing the UUID, then reading the clock), loads the
  table, appends and saves; a failing save raises out of the function. \<^verbatim>\<open>name or
  command[:50]\<close> takes the command's prefix when the name is \<^verbatim>\<open>None\<close> or empty.
\<close>

definition new_job :: "string \<Rightarrow> string option \<Rightarrow> int \<Rightarrow> world \<Rightarrow> job" where
  "new_job command nm tmo w =
     \<lparr>job_id = take 8 (str_uuid (uuid4 w (drawn w))),
      name = (case nm of None \<Rightarrow> take 50 command
              | Some n \<Rightarrow> if n = [] then take 50 command else n),
      cmd = command,
      state = ''queued'',
      pid = None,
      submit_time = clock w,
      start_time = None,
      end_time = None,
      timeout = Some tmo\<rparr>"

definition submit_job :: "string \<Rightarrow> string option \<Rightarrow> int \<Rightarrow> world \<Rightarrow> string outcome" where
  "submit_job command nm tmo w =
     (let j = new_job command nm tmo w;
          w0 = w\<lparr>drawn := Suc (drawn w)\<rparr> in
      case load_jobs w0 of
        Raises e w1 \<Rightarrow> Raises e w1
      | Hangs w1 \<Rightarrow> Hangs w1
      | Returns jobs w1 \<Rightarrow>
          (case save_jobs (jobs @ [j]) w1 of
             Raises e w2 \<Rightarrow> Raises e w2
           | Hangs w2 \<Rightarrow> Hangs w2
           | Returns _ w2 \<Rightarrow>
               Returns (job_id j)
                 (print (SubmittedCommand (cmd j))
                   (print (SubmittedName (name j)) (print (Submitted (job_id j)) w2)))))"

text \<open>A run of submissions, one after the other, as repeated calls from the command line.\<close>

fun submit_all :: "(string \<times> string option \<times> int) list \<Rightarrow> world \<Rightarrow> (string list) outcome" where
  "submit_all [] w = Returns [] w"
| "submit_all ((c, n, t) # rs) w =
     (case submit_job c n t w of
        Raises e w1 \<Rightarrow> Raises e w1
      | Hangs w1 \<Rightarrow> Hangs w1
      | Returns i w1 \<Rightarrow>
          (case submit_all rs w1 of
             Raises e w2 \<Rightarrow> Raises e w2
           | Hangs w2 \<Rightarrow> Hangs w2
           | Returns is w2 \<Rightarrow> Returns (i # is) w2))"

text \<open>
  \<^verbatim>\<open>next((j for j in jobs if j['id'] == job_id), None)\<close>: the first record with that id.
  The record is changed in place, so the model returns it with the records before and
  after it.
\<close>

fun find_job :: "string \<Rightarrow> job list \<Rightarrow> job list \<Rightarrow> (job list \<times> job \<times> job list) option" where
  "find_job i pre [] = None"
| "find_job i pre (j # js) = (if job_id j = i then Some (pre, j, js) else find_job i (pre @ [j]) js)"

text \<open>
  \<^verbatim>\<open>os.kill(pid, sig)\<close> on an integer pid: no such process and no permission both raise
  an \<^verbatim>\<open>OSError\<close>. Signal 0 only probes. \<^verbatim>\<open>SIGKILL\<close> ends the process; what a process does on
  \<^verbatim>\<open>SIGTERM\<close> is its own business, so the process table is left as it is.
\<close>

definition os_kill :: "int \<Rightarrow> signal \<Rightarrow> world \<Rightarrow> unit outcome" where
  "os_kill p sg w =
     (case procs w p of
        NoProc \<Rightarrow> Raises ProcessLookupError w
      | Foreign \<Rightarrow> Raises PermissionError w
      | Alive \<Rightarrow>
          Returns ()
            (w\<lparr>signals := signals w @ [(p, sg)],
               procs := (if sg = SIGKILL then (procs w)(p := NoProc) else procs w)\<rparr>))"

text \<open>\<^verbatim>\<open>os.kill(job['pid'], sig)\<close>: a \<^verbatim>\<open>null\<close> pid is a \<^verbatim>\<open>TypeError\<close>.\<close>

definition kill_job :: "int option \<Rightarrow> signal \<Rightarrow> world \<Rightarrow> unit outcome" where
  "kill_job po sg w = (case po of None \<Rightarrow> Raises TypeError w | Some p \<Rightarrow> os_kill p sg w)"

text \<open>
  \<^verbatim>\<open>cancel_job\<close>. In the \<^verbatim>\<open>running\<close> branch the signal, the state change and the save are
  all inside one \<^verbatim>\<open>try\<close> with a bare \<^verbatim>\<open>except\<close>; in the \<^verbatim>\<open>queued\<close> branch a failing save
  raises out of the function. The function returns \<^verbatim>\<open>None\<close> on every path.
\<close>

definition cancel_job :: "string \<Rightarrow> world \<Rightarrow> unit outcome" where
  "cancel_job i w =
     (case load_jobs w of
        Raises e w1 \<Rightarrow> Raises e w1
      | Hangs w1 \<Rightarrow> Hangs w1
      | Returns jobs w1 \<Rightarrow>
          (case find_job i [] jobs of
             None \<Rightarrow> Returns () (print (JobNotFound i) w1)
           | Some (pre, j, post) \<Rightarrow>
               if state j = ''queued'' then
                 (case save_jobs (pre @ j\<lparr>state := ''cancelled''\<rparr> # post) w1 of
                    Raises e w2 \<Rightarrow> Raises e w2
                  | Hangs w2 \<Rightarrow> Hangs w2
                  | Returns _ w2 \<Rightarrow> Returns () (print (CancelledQueued i) w2))
               else if state j = ''running'' then
                 (case kill_job (pid j) SIGTERM w1 of
                    Raises e w2 \<Rightarrow> Returns () (print (KillFailed (pid j)) w2)
                  | Hangs w2 \<Rightarrow> Hangs w2
                  | Returns _ w2 \<Rightarrow>
                      (case save_jobs (pre @ j\<lparr>state := ''cancelled''\<rparr> # post) w2 of
                         Raises e w3 \<Rightarrow> Returns () (print (KillFailed (pid j)) w3)
                       | Hangs w3 \<Rightarrow> Hangs w3
                       | Returns _ w3 \<Rightarrow> Returns () (print (CancelledRunning i) w3)))
               else Returns () (print (CannotCancel i (state j)) w1)))"

subsection \<open>Runner daemon\<close>

text \<open>Python's truth value of a pid and of a time stamp: \<^verbatim>\<open>None\<close> and zero are false.\<close>

definition pid_truthy :: "int option \<Rightarrow> bool" where
  "pid_truthy po = (case po of None \<Rightarrow> False | Some p \<Rightarrow> p \<noteq> 0)"

definition time_truthy :: "rat option \<Rightarrow> bool" where
  "time_truthy t = (case t of None \<Rightarrow> False | Some x \<Rightarrow> x \<noteq> 0)"

definition is_OSError :: "exn \<Rightarrow> bool" where
  "is_OSError e = (case e of TypeError \<Rightarrow> False | JSONDecodeError \<Rightarrow> False | _ \<Rightarrow> True)"

text \<open>
  \<^verbatim>\<open>subprocess.Popen(cmd, shell=True, stdout=open(...), stderr=open(...))\<close>: the two log
  files are opened for writing, then the shell is started. The handle is the pid together
  with the number of the child, which selects its behaviour.
\<close>

definition popen :: "job \<Rightarrow> world \<Rightarrow> (int \<times> nat) outcome" where
  "popen j w =
     (if \<not> io_ok w OpenLog (ticks w) then Raises (OSError OpenLog) (tick w)
      else
        let w1 = (tick w)\<lparr>running_area := insert (job_id j @ ''.out'') (running_area w)\<rparr> in
        if \<not> io_ok w1 OpenLog (ticks w1) then Raises (OSError OpenLog) (tick w1)
        else
          let w2 = (tick w1)\<lparr>running_area := insert (job_id j @ ''.err'') (running_area w1)\<rparr> in
          if \<not> io_ok w2 Spawn (ticks w2) then Raises (OSError Spawn) (tick w2)
          else
            let p = new_pid w2 (spawned w2) in
            Returns (p, spawned w2)
              ((tick w2)\<lparr>procs := (procs w2)(p := Alive),
                         launched := launched w2 @ [(job_id j, cmd j)],
                         spawned := Suc (spawned w2)\<rparr>))"

text \<open>\<^verbatim>\<open>p.wait()\<close> has no timeout: it returns when the child exits, and only then.\<close>

definition wait_proc :: "int \<times> nat \<Rightarrow> world \<Rightarrow> int outcome" where
  "wait_proc h w =
     (case behaviour w (snd h) of
        None \<Rightarrow> Hangs w
      | Some (d, rc) \<Rightarrow> Returns rc (w\<lparr>clock := clock w + d, procs := (procs w)(fst h := NoProc)\<rparr>))"

definition rename_log :: "string \<Rightarrow> world \<Rightarrow> unit outcome" where
  "rename_log f w =
     (if \<not> io_ok w RenameLog (ticks w) then Raises (OSError RenameLog) (tick w)
      else
        Returns ()
          ((tick w)\<lparr>running_area := running_area w - {f},
                    finished_area := insert f (finished_area w)\<rparr>))"

text \<open>
  The handler \<^verbatim>\<open>except Exception as e\<close> of the start block. It works on the record as
  the \<^verbatim>\<open>try\<close> body left it; its own save is not guarded.
\<close>

definition start_failed :: "job list \<Rightarrow> job \<Rightarrow> job list \<Rightarrow> exn \<Rightarrow> world \<Rightarrow> job outcome" where
  "start_failed pre j post e w =
     (let w1 = print (FailedToStart (job_id j) e) w;
          j' = j\<lparr>state := ''failed'', end_time := Some (clock w1)\<rparr> in
      case save_jobs (pre @ j' # post) w1 of
        Raises e' w2 \<Rightarrow> Raises e' w2
      | Hangs w2 \<Rightarrow> Hangs w2
      | Returns _ w2 \<Rightarrow> Returns j' w2)"

text \<open>
  The start block for a queued record \<open>j\<close>, with the records \<open>pre\<close> before it and \<open>post\<close>
  after it in the table the pass loaded: every \<^verbatim>\<open>save_jobs(jobs)\<close> writes the whole table
  with the record as it is at that moment.
\<close>

definition start_job :: "job list \<Rightarrow> job \<Rightarrow> job list \<Rightarrow> world \<Rightarrow> job outcome" where
  "start_job pre j post w =
     (let w1 = print (Starting (job_id j) (name j)) w;
          j1 = j\<lparr>state := ''running'', start_time := Some (clock w1)\<rparr> in
      case popen j1 w1 of
        Raises e w2 \<Rightarrow> start_failed pre j1 post e w2
      | Hangs w2 \<Rightarrow> Hangs w2
      | Returns h w2 \<Rightarrow>
          let j2 = j1\<lparr>pid := Some (fst h)\<rparr> in
          (case save_jobs (pre @ j2 # post) w2 of
             Raises e w3 \<Rightarrow> start_failed pre j2 post e w3
           | Hangs w3 \<Rightarrow> Hangs w3
           | Returns _ w3 \<Rightarrow>
               (case wait_proc h w3 of
                  Raises e w4 \<Rightarrow> start_failed pre j2 post e w4
                | Hangs w4 \<Rightarrow> Hangs w4
                | Returns ret w4 \<Rightarrow>
                    let j3 = j2\<lparr>end_time := Some (clock w4),
                                state := (if ret = 0 then ''finished'' else ''failed'')\<rparr> in
                    (case rename_log (job_id j3 @ ''.out'') w4 of
                       Raises e w5 \<Rightarrow> start_failed pre j3 post e w5
                     | Hangs w5 \<Rightarrow> Hangs w5
                     | Returns _ w5 \<Rightarrow>
                         (case rename_log (job_id j3 @ ''.err'') w5 of
                            Raises e w6 \<Rightarrow> start_failed pre j3 post e w6
                          | Hangs w6 \<Rightarrow> Hangs w6
                          | Returns _ w6 \<Rightarrow>
                              (case save_jobs (pre @ j3 # post) w6 of
                                 Raises e w7 \<Rightarrow> start_failed pre j3 post e w7
                               | Hangs w7 \<Rightarrow> Hangs w7
                               | Returns _ w7 \<Rightarrow>
                                   Returns j3 (print (JobDone (job_id j3) (state j3)) w7)))))))"

text \<open>
  The timeout block. The kill is inside a \<^verbatim>\<open>try\<close> with a bare \<^verbatim>\<open>except: pass\<close>, so the
  record becomes \<^verbatim>\<open>timeout\<close> whether or not the signal was delivered.
\<close>

definition check_timeout :: "job list \<Rightarrow> job \<Rightarrow> job list \<Rightarrow> world \<Rightarrow> job outcome" where
  "check_timeout pre j post w =
     (if state j = ''running'' \<and> time_truthy (start_time j) then
        let elapsed = clock w - the (start_time j) in
        if elapsed > of_int (case timeout j of None \<Rightarrow> TIMEOUT | Some t \<Rightarrow> t) then
          let w1 = print (TimedOut (job_id j)) w in
          (case (case kill_job (pid j) SIGKILL w1 of
                   Returns _ w2 \<Rightarrow> Returns () w2
                 | Raises e w2 \<Rightarrow> Returns () w2
                 | Hangs w2 \<Rightarrow> Hangs w2) of
             Raises e w3 \<Rightarrow> Raises e w3
           | Hangs w3 \<Rightarrow> Hangs w3
           | Returns _ w3 \<Rightarrow>
               let j' = j\<lparr>state := ''timeout'', end_time := Some (clock w3)\<rparr> in
               (case save_jobs (pre @ j' # post) w3 of
                  Raises e w4 \<Rightarrow> Raises e w4
                | Hangs w4 \<Rightarrow> Hangs w4
                | Returns _ w4 \<Rightarrow> Returns j' w4))
        else Returns j w
      else Returns j w)"

text \<open>The start block followed by the timeout block, on the record the start block left.\<close>

definition supervise :: "job list \<Rightarrow> job \<Rightarrow> job list \<Rightarrow> world \<Rightarrow> job outcome" where
  "supervise pre j post w =
     (case (if state j = ''queued'' then start_job pre j post w else Returns j w) of
        Raises e w' \<Rightarrow> Raises e w'
      | Hangs w' \<Rightarrow> Hangs w'
      | Returns j' w' \<Rightarrow> check_timeout pre j' post w')"

text \<open>
  The body of \<^verbatim>\<open>for job in jobs\<close>. The orphan check comes first and ends the iteration
  with \<^verbatim>\<open>continue\<close>; only an \<^verbatim>\<open>OSError\<close> of the probe is caught, and the save in the
  handler is not guarded.
\<close>

definition process_job :: "job list \<Rightarrow> job \<Rightarrow> job list \<Rightarrow> world \<Rightarrow> job outcome" where
  "process_job pre j post w =
     (if state j = ''running'' \<and> pid_truthy (pid j) then
        (case kill_job (pid j) SIG0 w of
           Returns _ w1 \<Rightarrow> supervise pre j post w1
         | Hangs w1 \<Rightarrow> Hangs w1
         | Raises e w1 \<Rightarrow>
             if is_OSError e then
               let w2 = print (Orphaned (job_id j)) w1;
                   j' = j\<lparr>state := ''failed'', end_time := Some (clock w2)\<rparr> in
               (case save_jobs (pre @ j' # post) w2 of
                  Raises e' w3 \<Rightarrow> Raises e' w3
                | Hangs w3 \<Rightarrow> Hangs w3
                | Returns _ w3 \<Rightarrow> Returns j' w3)
             else Raises e w1)
      else supervise pre j post w)"

text \<open>The \<^verbatim>\<open>for\<close> loop: \<open>pre\<close> are the records already visited, as the pass left them.\<close>

fun scan :: "job list \<Rightarrow> job list \<Rightarrow> world \<Rightarrow> (job list) outcome" where
  "scan pre [] w = Returns pre w"
| "scan pre (j # post) w =
     (case process_job pre j post w of
        Raises e w' \<Rightarrow> Raises e w'
      | Hangs w' \<Rightarrow> Hangs w'
      | Returns j' w' \<Rightarrow> scan (pre @ [j']) post w')"


text \<open>One turn of \<^verbatim>\<open>while True\<close>: load, visit every record, sleep two seconds.\<close>

definition scan_pass :: "world \<Rightarrow> (job list) outcome" where
  "scan_pass w =
     (case load_jobs w of
        Raises e w1 \<Rightarrow> Raises e w1
      | Hangs w1 \<Rightarrow> Hangs w1
      | Returns jobs w1 \<Rightarrow>
          (case scan [] jobs w1 of
             Raises e w2 \<Rightarrow> Raises e w2
           | Hangs w2 \<Rightarrow> Hangs w2
           | Returns jobs' w2 \<Rightarrow> Returns jobs' (w2\<lparr>clock := clock w2 + 2\<rparr>)))"

text \<open>
  \<^verbatim>\<open>run_jobs\<close>, interrupted from the keyboard after \<open>n\<close> full passes. An exception that is
  not \<^verbatim>\<open>KeyboardInterrupt\<close> leaves the loop and the function.
\<close>

fun passes :: "nat \<Rightarrow> world \<Rightarrow> unit outcome" where
  "passes 0 w = Returns () w"
| "passes (Suc n) w =
     (case scan_pass w of
        Raises e w' \<Rightarrow> Raises e w'
      | Hangs w' \<Rightarrow> Hangs w'
      | Returns _ w' \<Rightarrow> passes n w')"

definition run_jobs :: "nat \<Rightarrow> world \<Rightarrow> unit outcome" where
  "run_jobs n w =
     (case passes n (print PressCtrlC (print RunnerStarted w)) of
        Raises e w' \<Rightarrow> Raises e w'
      | Hangs w' \<Rightarrow> Hangs w'
      | Returns _ w' \<Rightarrow> Returns () (print RunnerStopped w'))"

subsection \<open>Observing outcomes\<close>

fun returned :: "'a outcome \<Rightarrow> 'a option" where
  "returned (Returns a w) = Some a"
| "returned (Raises e w) = None"
| "returned (Hangs w) = None"

fun world_of :: "'a outcome \<Rightarrow> world" where
  "world_of (Returns a w) = w"
| "world_of (Raises e w) = w"
| "world_of (Hangs w) = w"

text \<open>The table a reader of the queue file gets.\<close>

definition table_of :: "world \<Rightarrow> job list" where
  "table_of w = (case store w of Some (Table js) \<Rightarrow> js | _ \<Rightarrow> [])"

text \<open>
  \<open>save_ok w\<close>: the three file-system calls of a save begun in \<open>w\<close> succeed;
  \<open>saved js w\<close>: the world such a save of \<open>js\<close> leaves.
\<close>

definition save_ok :: "world \<Rightarrow> bool" where
  "save_ok w \<longleftrightarrow>
     io_ok w Mkstemp (ticks w) \<and> io_ok w Dump (Suc (ticks w)) \<and> io_ok w Replace (Suc (Suc (ticks w)))"

definition saved :: "job list \<Rightarrow> world \<Rightarrow> world" where
  "saved js w = w\<lparr>store := Some (Table js), tmp := None, ticks := ticks w + 3\<rparr>"

text \<open>The id the \<open>k\<close>-th draw of a UUID gives.\<close>

definition new_id :: "world \<Rightarrow> nat \<Rightarrow> string" where
  "new_id w k = take 8 (str_uuid (uuid4 w k))"

subsection \<open>Example records and worlds\<close>

definition job_a :: job where
  "job_a =
     \<lparr>job_id = ''1b9d6bcd'', name = ''sleep 100'', cmd = ''sleep 100'', state = ''queued'',
      pid = None, submit_time = 990, start_time = None, end_time = None, timeout = Some 1\<rparr>"

definition world0 :: world where
  "world0 =
     \<lparr>clock = 1000, store = None, tmp = None, running_area = {}, finished_area = {},
      procs = (\<lambda>p. NoProc), signals = [], launched = [], out = [], ticks = 0,
      spawned = 0, drawn = 0, io_ok = (\<lambda>op n. True), new_pid = (\<lambda>k. 4242 + int k),
      behaviour = (\<lambda>k. Some (100, 0)),
      uuid4 = (\<lambda>k. 0x1b9d6bcdbbfd4b2d9b5dab8dfbbd4bed + k)\<rparr>"

text \<open>The same record once started by an earlier daemon, and once finished.\<close>

definition job_r :: job where
  "job_r = job_a\<lparr>state := ''running'', pid := Some 4242, start_time := Some 995\<rparr>"

definition job_f :: job where
  "job_f = job_r\<lparr>state := ''finished'', end_time := Some 999\<rparr>"

text \<open>A queued job that prints a line, with the default timeout.\<close>

definition job_q :: job where
  "job_q =
     \<lparr>job_id = ''7c9e6679'', name = ''echo ok'', cmd = ''echo ok'', state = ''queued'',
      pid = None, submit_time = 998, start_time = None, end_time = None,
      timeout = Some 3600\<rparr>"

text \<open>
  The queue holds \<^verbatim>\<open>sleep 100\<close> with a timeout of one second, and the child runs its
  hundred seconds and exits with status 0.
\<close>

definition world_sleep :: world where
  "world_sleep = world0\<lparr>store := Some (Table [job_a])\<rparr>"

text \<open>The same queue, but the child never exits.\<close>

definition world_forever :: world where
  "world_forever = world_sleep\<lparr>behaviour := (\<lambda>k. None)\<rparr>"

text \<open>
  A daemon died while it supervised \<open>job_r\<close>: the record says \<^verbatim>\<open>running\<close>, process 4242
  is gone, and \<open>job_q\<close> waits behind it.
\<close>

definition world_orphan :: world where
  "world_orphan = world0\<lparr>store := Some (Table [job_r, job_q])\<rparr>"

text \<open>
  \<open>world_fine\<close>: the queue holds \<open>job_q\<close> and the child exits with status 0 after two
  seconds. \<open>world_rename\<close>: the same, but renaming a log file fails (say
  \<^verbatim>\<open>jobs/finished\<close> is missing, or the job removed its own log). \<open>world_err\<close>: the
  same, but only the second rename, of the \<^verbatim>\<open>.err\<close> file, fails.
\<close>

definition world_fine :: world where
  "world_fine = world0\<lparr>store := Some (Table [job_q]), behaviour := (\<lambda>k. Some (2, 0))\<rparr>"

definition world_rename :: world where
  "world_rename = world_fine\<lparr>io_ok := (\<lambda>op n. op \<noteq> RenameLog)\<rparr>"

definition world_err :: world where
  "world_err = world_fine\<lparr>io_ok := (\<lambda>op n. \<not> (op = RenameLog \<and> n = 7))\<rparr>"





text \<open>
  \<open>job_r\<close> is running and its process is alive, but the queue file cannot be replaced:
  creating the temporary file fails (the directory is read-only, or the disk is full).
\<close>

definition world_unwritable :: world where
  "world_unwritable =
     world0\<lparr>store := Some (Table [job_r]),
            procs := (\<lambda>p. if p = 4242 then Alive else NoProc),
            io_ok := (\<lambda>op n. op \<noteq> Mkstemp)\<rparr>"

text \<open>A world whose UUIDs differ in their first eight digits.\<close>

definition world_fresh :: world where
  "world_fresh = world0\<lparr>uuid4 := (\<lambda>k. 0x1b9d6bcdbbfd4b2d9b5dab8dfbbd4bed + k * 2 ^ 96)\<rparr>"

section \<open>Properties\<close>

subsection \<open>Job store\<close>

lemma load_jobs_table: "load_jobs w = Returns (table_of w) w"
  by (simp add: load_jobs_def read_json_def table_of_def split: option.splits content.splits)

lemma save_jobs_ok: "save_ok w \<Longrightarrow> save_jobs js w = Returns () (saved js w)"
  by (simp add: save_jobs_def atomic_write_def save_ok_def saved_def tick_def Let_def)

lemma save_jobs_Returns:
  "save_jobs js w = Returns u w' \<Longrightarrow> save_ok w \<and> w' = saved js w"
  by (auto simp: save_jobs_def atomic_write_def save_ok_def saved_def tick_def Let_def
           split: if_splits)

lemma save_jobs_not_ok:
  "\<not> save_ok w \<Longrightarrow> \<exists>e w'. save_jobs js w = Raises e w' \<and> store w' = store w \<and>
      procs w' = procs w \<and> signals w' = signals w \<and> launched w' = launched w \<and> out w' = out w \<and> clock w' = clock w"
  by (auto simp: save_jobs_def atomic_write_def save_ok_def tick_def Let_def)

lemma save_jobs_Raises:
  "save_jobs js w = Raises e w' \<Longrightarrow>
     store w' = store w \<and> drawn w' = drawn w \<and> uuid4 w' = uuid4 w \<and> clock w' = clock w \<and>
     procs w' = procs w \<and> signals w' = signals w \<and> launched w' = launched w \<and> out w' = out w"
  by (auto simp: save_jobs_def atomic_write_def tick_def Let_def split: if_splits)

lemma table_of_saved [simp]: "table_of (saved js w) = js"
  by (simp add: table_of_def saved_def)

lemma world0_fields:
  "drawn world0 = 0" "store world0 = None" "ticks world0 = 0" "clock world0 = 1000"
  "io_ok world0 = (\<lambda>op n. True)" "out world0 = []" "signals world0 = []"
  "launched world0 = []" "spawned world0 = 0" "tmp world0 = None"
  by (simp_all add: world0_def)

text \<open>
  Claim C2, as stated, fails: when the queue file exists but cannot be parsed,
  \<^verbatim>\<open>load_jobs\<close> does not fail. It returns the empty table, exactly as for a missing
  file, and prints nothing.
\<close>

theorem load_jobs_unparseable_silent:
  "store (world0\<lparr>store := Some Unparseable\<rparr>) = Some Unparseable \<and>
   load_jobs (world0\<lparr>store := Some Unparseable\<rparr>) =
     Returns [] (world0\<lparr>store := Some Unparseable\<rparr>) \<and>
   load_jobs world0 = Returns [] world0"
  by (simp add: load_jobs_def read_json_def world0_fields)

text \<open>
  Claim C2, amended: \<^verbatim>\<open>load_jobs\<close> never raises and changes nothing. It returns the
  full table when the queue file exists and parses, and the empty table both when the
  file is absent and when it exists but cannot be read as a table.
\<close>

theorem load_jobs_total:
  "load_jobs w = Returns (case store w of Some (Table js) \<Rightarrow> js | _ \<Rightarrow> []) w"
  by (simp add: load_jobs_def read_json_def split: option.splits content.splits)

text \<open>
  Claim C5: for every table (empty, of one record or of many), a save returns whenever
  its three file-system calls succeed, and a load after a save that returned yields the
  table that was saved, field for field.
\<close>

theorem save_then_load:
  "(save_ok w \<longrightarrow> save_jobs jobs w = Returns () (saved jobs w)) \<and>
   (\<forall>u w'. save_jobs jobs w = Returns u w' \<longrightarrow> load_jobs w' = Returns jobs w')"
proof (intro conjI allI impI)
  assume "save_ok w"
  then show "save_jobs jobs w = Returns () (saved jobs w)"
    by (rule save_jobs_ok)
next
  fix u w'
  assume "save_jobs jobs w = Returns u w'"
  then have "w' = saved jobs w"
    by (simp add: save_jobs_Returns)
  then show "load_jobs w' = Returns jobs w'"
    by (simp add: load_jobs_table)
qed

theorem save_then_load_witness:
  "save_ok world0 \<and>
   save_jobs [job_a, job_r] world0 =
     Returns () (world0\<lparr>store := Some (Table [job_a, job_r]), ticks := 3\<rparr>) \<and>
   load_jobs (world0\<lparr>store := Some (Table [job_a, job_r]), ticks := 3\<rparr>) =
     Returns [job_a, job_r] (world0\<lparr>store := Some (Table [job_a, job_r]), ticks := 3\<rparr>)"
proof -
  have o: "save_ok world0"
    by (simp add: save_ok_def world0_fields)
  have e: "saved [job_a, job_r] world0 = world0\<lparr>store := Some (Table [job_a, job_r]), ticks := 3\<rparr>"
    by (simp add: saved_def world0_def)
  note th = save_then_load [of world0 "[job_a, job_r]"]
  from th o have s: "save_jobs [job_a, job_r] world0 = Returns () (saved [job_a, job_r] world0)"
    by blast
  with th have "load_jobs (saved [job_a, job_r] world0) = Returns [job_a, job_r] (saved [job_a, job_r] world0)"
    by blast
  with s o show ?thesis
    by (simp add: e)
qed

subsection \<open>Job identifiers\<close>

lemma length_hex_fixed: "length (hex_fixed k n) = k"
  by (induction k arbitrary: n) auto

lemma hex_fixed_add: "hex_fixed (a + b) n = hex_fixed a (n div 16 ^ b) @ hex_fixed b n"
proof (induction b arbitrary: n)
  case 0
  then show ?case by simp
next
  case (Suc b)
  have "n div 16 div 16 ^ b = n div 16 ^ Suc b"
    by (simp add: div_mult2_eq)
  with Suc [of "n div 16"] show ?case by simp
qed

lemma length_uuid_hex: "length (uuid_hex u) = 32"
  by (simp add: uuid_hex_def length_hex_fixed)

lemma take_8_str_uuid: "take 8 (str_uuid u) = hex_fixed 8 (u mod 2 ^ 128 div 16 ^ 24)"
proof -
  have "uuid_hex u = hex_fixed (8 + 24) (u mod 2 ^ 128)"
    by (simp add: uuid_hex_def)
  also have "\<dots> = hex_fixed 8 (u mod 2 ^ 128 div 16 ^ 24) @ hex_fixed 24 (u mod 2 ^ 128)"
    by (rule hex_fixed_add)
  finally have a: "take 8 (uuid_hex u) = hex_fixed 8 (u mod 2 ^ 128 div 16 ^ 24)"
    by (simp only: take_append length_hex_fixed diff_self_eq_0 take_0 append_Nil2 take_all order_refl)
  have b: "take 8 (str_uuid u) = take 8 (uuid_hex u)"
    by (simp add: str_uuid_def Let_def length_uuid_hex)
  from b a show ?thesis by (rule trans)
qed

lemma length_new_id: "length (new_id w k) = 8"
  by (simp add: new_id_def take_8_str_uuid length_hex_fixed)

lemma hex_fixed_numeral:
  "hex_fixed (numeral k) n = hex_fixed (pred_numeral k) (n div 16) @ [hexdigit (n mod 16)]"
  unfolding numeral_eq_Suc [of k] by (rule hex_fixed.simps(2))

lemma id0: "new_id world0 k = hex_fixed 8 ((0x1b9d6bcdbbfd4b2d9b5dab8dfbbd4bed + k) mod 2 ^ 128 div 16 ^ 24)"
  by (simp add: new_id_def take_8_str_uuid world0_def)

lemma id0_0: "new_id world0 0 = ''1b9d6bcd''"
  by (simp add: id0 hex_fixed_numeral hexdigit_def)

lemma id0_1: "new_id world0 (Suc 0) = ''1b9d6bcd''"
  by (simp add: id0 hex_fixed_numeral hexdigit_def)

lemma idf: "new_id world_fresh k =
    hex_fixed 8 ((0x1b9d6bcdbbfd4b2d9b5dab8dfbbd4bed + k * 2 ^ 96) mod 2 ^ 128 div 16 ^ 24)"
  by (simp add: new_id_def take_8_str_uuid world_fresh_def)

lemma idf_0: "new_id world_fresh 0 = ''1b9d6bcd''"
  by (simp add: idf hex_fixed_numeral hexdigit_def)

lemma idf_1: "new_id world_fresh (Suc 0) = ''1b9d6bce''"
  by (simp add: idf hex_fixed_numeral hexdigit_def)

lemma world_fresh_fields:
  "drawn world_fresh = 0" "store world_fresh = None" "io_ok world_fresh = (\<lambda>op n. True)"
  by (simp_all add: world_fresh_def world0_def)

lemma submit_job_step:
  assumes "submit_job c n t w = Returns i w'"
  shows "i = new_id w (drawn w) \<and> table_of w' = table_of w @ [new_job c n t w] \<and>
         drawn w' = Suc (drawn w) \<and> uuid4 w' = uuid4 w"
proof -
  let ?w0 = "w\<lparr>drawn := Suc (drawn w)\<rparr>"
  let ?js = "table_of ?w0 @ [new_job c n t w]"
  from assms obtain u w2 where s: "save_jobs ?js ?w0 = Returns u w2"
    by (auto simp: submit_job_def Let_def load_jobs_table split: outcome.splits)
  then have w2: "w2 = saved ?js ?w0" by (simp add: save_jobs_Returns)
  from assms s have "i = job_id (new_job c n t w)" and
     "w' = print (SubmittedCommand (cmd (new_job c n t w)))
             (print (SubmittedName (name (new_job c n t w))) (print (Submitted (job_id (new_job c n t w))) w2))"
    by (auto simp: submit_job_def Let_def load_jobs_table)
  with w2 show ?thesis
    by (simp add: new_job_def new_id_def print_def saved_def table_of_def)
qed

lemma submit_job_cases:
  "(\<exists>w'. submit_job c n t w = Returns (job_id (new_job c n t w)) w' \<and> save_ok w \<and>
          table_of w' = table_of w @ [new_job c n t w] \<and>
          drawn w' = Suc (drawn w) \<and> uuid4 w' = uuid4 w) \<or>
   (\<exists>e w'. submit_job c n t w = Raises e w' \<and> \<not> save_ok w \<and> table_of w' = table_of w \<and>
          drawn w' = Suc (drawn w) \<and> uuid4 w' = uuid4 w)"
proof (cases "save_ok w")
  case True
  let ?w0 = "w\<lparr>drawn := Suc (drawn w)\<rparr>"
  from True have "save_ok ?w0"
    by (simp add: save_ok_def)
  then have "save_jobs (table_of ?w0 @ [new_job c n t w]) ?w0 =
      Returns () (saved (table_of ?w0 @ [new_job c n t w]) ?w0)"
    by (rule save_jobs_ok)
  with True show ?thesis
    by (simp add: submit_job_def Let_def load_jobs_table print_def saved_def table_of_def)
next
  case False
  let ?w0 = "w\<lparr>drawn := Suc (drawn w)\<rparr>"
  from False have "\<not> save_ok ?w0"
    by (simp add: save_ok_def)
  from save_jobs_not_ok [OF this, of "table_of ?w0 @ [new_job c n t w]"] obtain e w' where
    r: "save_jobs (table_of ?w0 @ [new_job c n t w]) ?w0 = Raises e w'"
    by blast
  from save_jobs_Raises [OF r] have "table_of w' = table_of w" "drawn w' = Suc (drawn w)"
    "uuid4 w' = uuid4 w"
    by (simp_all add: table_of_def)
  with r False show ?thesis
    by (simp add: submit_job_def Let_def load_jobs_table)
qed

text \<open>
  Claim C10: whatever the command, the name and the timeout, the id of the record a
  submission builds has exactly eight characters, the first eight of the string of the
  UUID drawn. The submission returns that id whenever the store can be written, and a
  submission that returns has appended the record with that id to the table.
\<close>

theorem submit_job_id_length:
  "length (job_id (new_job command nm tmo w)) = 8 \<and>
   job_id (new_job command nm tmo w) = take 8 (str_uuid (uuid4 w (drawn w))) \<and>
   (save_ok w \<longrightarrow> returned (submit_job command nm tmo w) = Some (job_id (new_job command nm tmo w))) \<and>
   (\<forall>i w'. submit_job command nm tmo w = Returns i w' \<longrightarrow>
      i = job_id (new_job command nm tmo w) \<and>
      table_of w' = table_of w @ [new_job command nm tmo w])"
proof -
  have a: "job_id (new_job command nm tmo w) = take 8 (str_uuid (uuid4 w (drawn w)))"
    by (simp add: new_job_def)
  have b: "length (job_id (new_job command nm tmo w)) = 8"
    using length_new_id [of w "drawn w"] by (simp add: new_job_def new_id_def)
  from submit_job_cases [of command nm tmo w] have
    c: "save_ok w \<longrightarrow> returned (submit_job command nm tmo w) = Some (job_id (new_job command nm tmo w))"
    by auto
  from submit_job_cases [of command nm tmo w] have
    d: "\<forall>i w'. submit_job command nm tmo w = Returns i w' \<longrightarrow>
      i = job_id (new_job command nm tmo w) \<and>
      table_of w' = table_of w @ [new_job command nm tmo w]"
    by auto
  from a b c d show ?thesis by blast
qed

theorem submit_job_id_length_witness:
  "save_ok world0 \<and>
   returned (submit_job ''echo hi'' None 3600 world0) = Some ''1b9d6bcd'' \<and>
   length ''1b9d6bcd'' = 8 \<and>
   map job_id (table_of (world_of (submit_job ''echo hi'' None 3600 world0))) = [''1b9d6bcd'']"
proof -
  let ?r = "submit_job ''echo hi'' None 3600 world0"
  let ?j = "new_job ''echo hi'' None 3600 world0"
  have o: "save_ok world0"
    by (simp add: save_ok_def world0_fields)
  have n: "job_id ?j = ''1b9d6bcd''"
    using id0_0 by (simp add: new_job_def new_id_def world0_fields)
  have t: "table_of world0 = []"
    by (simp add: table_of_def world0_fields)
  note th = submit_job_id_length [of "''echo hi''" None 3600 world0]
  from th o have a: "returned ?r = Some (job_id ?j)"
    by blast
  then have r: "?r = Returns (job_id ?j) (world_of ?r)"
    by (cases ?r) simp_all
  with th have "table_of (world_of ?r) = table_of world0 @ [?j]"
    by blast
  then have b: "map job_id (table_of (world_of ?r)) = [''1b9d6bcd'']"
    by (simp add: t n)
  from th have "length (job_id ?j) = 8"
    by blast
  then have c: "length ''1b9d6bcd'' = 8"
    unfolding n .
  from a have "returned ?r = Some ''1b9d6bcd''"
    unfolding n .
  with o b c show ?thesis by blast
qed

subsection \<open>Uniqueness of ids\<close>

lemma submit_all_ids:
  "submit_all reqs w = Returns ids w' \<Longrightarrow>
     ids = map (new_id w) [drawn w ..< drawn w + length reqs] \<and>
     map job_id (table_of w') = map job_id (table_of w) @ ids \<and>
     drawn w' = drawn w + length reqs \<and> uuid4 w' = uuid4 w"
proof (induction reqs arbitrary: w ids w')
  case Nil
  then show ?case by simp
next
  case (Cons r rs)
  obtain c n t where r: "r = (c, n, t)" by (cases r) auto
  from Cons.prems r obtain i w1 js where
    a: "submit_job c n t w = Returns i w1" and
    b: "submit_all rs w1 = Returns js w'" and
    c: "ids = i # js"
    by (auto split: outcome.splits)
  note s = submit_job_step [OF a]
  note ih = Cons.IH [OF b]
  from s have n: "new_id w1 = new_id w"
    by (auto simp: new_id_def fun_eq_iff)
  have "drawn w < drawn w + length (r # rs)" by simp
  then have "[drawn w ..< drawn w + length (r # rs)] =
             drawn w # [Suc (drawn w) ..< drawn w + length (r # rs)]"
    by (rule upt_conv_Cons)
  with s have u: "[drawn w ..< drawn w + length (r # rs)] =
           drawn w # [drawn w1 ..< drawn w1 + length rs]"
    by simp
  have "ids = i # map (new_id w) [drawn w1 ..< drawn w1 + length rs]"
    using c ih n by simp
  also have "\<dots> = map (new_id w) (drawn w # [drawn w1 ..< drawn w1 + length rs])"
    using s by simp
  also have "\<dots> = map (new_id w) [drawn w ..< drawn w + length (r # rs)]"
    by (simp only: u)
  finally have 1: "ids = map (new_id w) [drawn w ..< drawn w + length (r # rs)]" .
  have "job_id (new_job c n t w) = i"
    using s by (simp add: new_job_def new_id_def)
  with s ih c have 2: "map job_id (table_of w') = map job_id (table_of w) @ ids"
    by simp
  from s ih have 3: "drawn w' = drawn w + length (r # rs)" and 4: "uuid4 w' = uuid4 w"
    by simp_all
  from 1 2 3 4 show ?case by blast
qed

lemma submit_all_table:
  "\<exists>m \<le> length reqs.
     map job_id (table_of (world_of (submit_all reqs w))) =
       map job_id (table_of w) @ map (new_id w) [drawn w ..< drawn w + m]"
proof (induction reqs arbitrary: w)
  case Nil
  then show ?case by simp
next
  case (Cons r rs)
  obtain c n t where r: "r = (c, n, t)" by (cases r) auto
  from submit_job_cases [of c n t w] show ?case
  proof (elim disjE exE conjE)
    fix e w'
    assume "submit_job c n t w = Raises e w'" and "table_of w' = table_of w"
    then have "map job_id (table_of (world_of (submit_all (r # rs) w))) =
       map job_id (table_of w) @ map (new_id w) [drawn w ..< drawn w + 0]"
      by (simp add: r)
    then show ?thesis by blast
  next
    fix w1
    assume s: "submit_job c n t w = Returns (job_id (new_job c n t w)) w1"
      and t: "table_of w1 = table_of w @ [new_job c n t w]"
      and d: "drawn w1 = Suc (drawn w)" and u: "uuid4 w1 = uuid4 w"
    from Cons.IH [of w1] obtain m where m: "m \<le> length rs" and
      ih: "map job_id (table_of (world_of (submit_all rs w1))) =
           map job_id (table_of w1) @ map (new_id w1) [drawn w1 ..< drawn w1 + m]"
      by blast
    from u have n: "new_id w1 = new_id w"
      by (auto simp: new_id_def fun_eq_iff)
    have j: "job_id (new_job c n t w) = new_id w (drawn w)"
      by (simp add: new_job_def new_id_def)
    have "drawn w < drawn w + Suc m" by simp
    then have "[drawn w ..< drawn w + Suc m] = drawn w # [Suc (drawn w) ..< drawn w + Suc m]"
      by (rule upt_conv_Cons)
    then have up: "[drawn w ..< drawn w + Suc m] = drawn w # [drawn w1 ..< drawn w1 + m]"
      using d by simp
    have w: "world_of (submit_all (r # rs) w) = world_of (submit_all rs w1)"
      using s by (simp add: r split: outcome.splits)
    have "map job_id (table_of (world_of (submit_all (r # rs) w))) =
          map job_id (table_of w) @ map (new_id w) (drawn w # [drawn w1 ..< drawn w1 + m])"
      unfolding w ih t n by (simp add: j)
    then have "map job_id (table_of (world_of (submit_all (r # rs) w))) =
          map job_id (table_of w) @ map (new_id w) [drawn w ..< drawn w + Suc m]"
      by (simp only: up)
    moreover from m have "Suc m \<le> length (r # rs)" by simp
    ultimately show ?thesis by blast
  qed
qed

text \<open>
  Claim C6, as stated, fails: two submissions whose UUIDs differ but agree on their first
  eight hexadecimal digits leave two records with the same id in the store.
\<close>

theorem submit_twice_same_id:
  "returned (submit_all [(''echo a'', None, 3600), (''echo b'', None, 3600)] world0) =
     Some [''1b9d6bcd'', ''1b9d6bcd''] \<and>
   map job_id (table_of (world_of
     (submit_all [(''echo a'', None, 3600), (''echo b'', None, 3600)] world0))) =
     [''1b9d6bcd'', ''1b9d6bcd''] \<and>
   uuid4 world0 0 \<noteq> uuid4 world0 1"
proof -
  let ?r = "submit_all [(''echo a'', None, 3600), (''echo b'', None, 3600)] world0"
  have ok: "save_ok w" if "io_ok w = io_ok world0" for w
    using that by (simp add: save_ok_def world0_def)
  have "?r = Returns (the (returned ?r)) (world_of ?r)"
    by (simp add: submit_job_def Let_def load_jobs_table save_jobs_ok ok print_def saved_def)
  from submit_all_ids [OF this] have
    "the (returned ?r) = [''1b9d6bcd'', ''1b9d6bcd'']"
    "map job_id (table_of (world_of ?r)) = [''1b9d6bcd'', ''1b9d6bcd'']"
    by (simp_all add: upt_rec id0_0 id0_1 table_of_def world0_fields)
  moreover have "returned ?r = Some (the (returned ?r))"
    by (simp add: submit_job_def Let_def load_jobs_table save_jobs_ok ok print_def saved_def)
  moreover have "uuid4 world0 0 \<noteq> uuid4 world0 1"
    by (simp add: world0_def)
  ultimately show ?thesis by simp
qed

text \<open>
  Claim C6, amended: after a run of submissions on a store whose ids are pairwise
  distinct, however the run ends, the ids in the store are pairwise distinct provided
  the eight-character prefixes of the UUIDs drawn are pairwise distinct and none of them
  is already an id of the store.
\<close>

theorem submit_all_distinct_ids:
  assumes "distinct (map job_id (table_of w))"
      and "inj_on (new_id w) {drawn w ..< drawn w + length reqs}"
      and "\<forall>k \<in> {drawn w ..< drawn w + length reqs}. new_id w k \<notin> job_id ` set (table_of w)"
  shows "distinct (map job_id (table_of (world_of (submit_all reqs w))))"
proof -
  from submit_all_table [of reqs w] obtain m where m: "m \<le> length reqs" and
    t: "map job_id (table_of (world_of (submit_all reqs w))) =
        map job_id (table_of w) @ map (new_id w) [drawn w ..< drawn w + m]"
    by blast
  from m have sub: "{drawn w ..< drawn w + m} \<subseteq> {drawn w ..< drawn w + length reqs}"
    by auto
  from assms(2) sub have "inj_on (new_id w) {drawn w ..< drawn w + m}"
    by (rule inj_on_subset)
  then have "distinct (map (new_id w) [drawn w ..< drawn w + m])"
    by (simp add: distinct_map)
  moreover have "set (map job_id (table_of w)) \<inter> set (map (new_id w) [drawn w ..< drawn w + m]) = {}"
  proof -
    have False if x: "x \<in> set (map job_id (table_of w))"
      and y: "x \<in> set (map (new_id w) [drawn w ..< drawn w + m])" for x
    proof -
      from y obtain k where "k \<in> {drawn w ..< drawn w + m}" and "x = new_id w k"
        by auto
      with sub assms(3) have "x \<notin> job_id ` set (table_of w)" by auto
      with x show False by simp
    qed
    then show ?thesis by blast
  qed
  ultimately show ?thesis
    using assms(1) unfolding t by simp
qed

theorem submit_all_distinct_ids_witness:
  "distinct (map job_id (table_of world_fresh)) \<and>
   returned (submit_all [(''echo a'', None, 3600), (''echo b'', None, 3600)] world_fresh) =
     Some [''1b9d6bcd'', ''1b9d6bce''] \<and>
   distinct (map job_id (table_of (world_of
     (submit_all [(''echo a'', None, 3600), (''echo b'', None, 3600)] world_fresh))))"
proof -
  let ?reqs = "[(''echo a'', None, 3600), (''echo b'', None, 3600)]"
  let ?r = "submit_all ?reqs world_fresh"
  have ok: "save_ok w" if "io_ok w = io_ok world_fresh" for w
    using that by (simp add: save_ok_def world_fresh_fields)
  have r: "?r = Returns (the (returned ?r)) (world_of ?r)"
    by (simp add: submit_job_def Let_def load_jobs_table save_jobs_ok ok print_def saved_def)
  have t: "table_of world_fresh = []"
    by (simp add: table_of_def world_fresh_fields)
  then have d: "distinct (map job_id (table_of world_fresh))"
    by simp
  have i: "inj_on (new_id world_fresh) {drawn world_fresh ..< drawn world_fresh + length ?reqs}"
    by (auto simp: inj_on_def world_fresh_fields less_Suc_eq numeral_2_eq_2 idf_0 idf_1)
  have f: "\<forall>k \<in> {drawn world_fresh ..< drawn world_fresh + length ?reqs}.
             new_id world_fresh k \<notin> job_id ` set (table_of world_fresh)"
    by (simp add: t)
  note th = submit_all_distinct_ids [OF d i f]
  moreover have "the (returned ?r) = [''1b9d6bcd'', ''1b9d6bce'']"
    using submit_all_ids [OF r] by (simp add: upt_rec idf_0 idf_1 world_fresh_fields)
  moreover have "returned ?r = Some (the (returned ?r))"
    by (subst r) simp
  ultimately show ?thesis using d by simp
qed

subsection \<open>Cancellation\<close>

lemma find_job_split:
  "find_job i pre js = Some (a, j, b) \<Longrightarrow> pre @ js = a @ j # b \<and> job_id j = i"
proof (induction js arbitrary: pre)
  case Nil
  then show ?case by simp
next
  case (Cons x xs)
  show ?case
  proof (cases "job_id x = i")
    case True
    with Cons.prems show ?thesis by simp
  next
    case False
    with Cons.prems have "find_job i (pre @ [x]) xs = Some (a, j, b)" by simp
    from Cons.IH [OF this] show ?thesis by simp
  qed
qed

text \<open>
  A cancel request on a running job, when the save does not fail: a delivered signal
  makes the record \<^verbatim>\<open>cancelled\<close> in the persisted table; a signal that cannot be
  delivered (no pid, no such process, no permission) is reported and nothing else
  changes.
\<close>

lemma cancel_running_job:
  assumes "find_job i [] (table_of w) = Some (pre, j, post)" and "state j = ''running''"
  shows "(\<forall>p. pid j = Some p \<and> procs w p = Alive \<and> save_ok w \<longrightarrow>
            cancel_job i w =
              Returns () (print (CancelledRunning i)
                (saved (pre @ j\<lparr>state := ''cancelled''\<rparr> # post)
                   (w\<lparr>signals := signals w @ [(p, SIGTERM)]\<rparr>)))) \<and>
         (pid j = None \<or> (\<exists>p. pid j = Some p \<and> procs w p \<noteq> Alive) \<longrightarrow>
            cancel_job i w = Returns () (w\<lparr>out := out w @ [KillFailed (pid j)]\<rparr>))"
proof (intro conjI allI impI)
  fix p assume h: "pid j = Some p \<and> procs w p = Alive \<and> save_ok w"
  let ?w = "w\<lparr>signals := signals w @ [(p, SIGTERM)]\<rparr>"
  have k: "kill_job (pid j) SIGTERM w = Returns () ?w"
    using h by (simp add: kill_job_def os_kill_def)
  have "save_ok ?w" using h by (simp add: save_ok_def)
  then have s: "save_jobs (pre @ j\<lparr>state := ''cancelled''\<rparr> # post) ?w =
      Returns () (saved (pre @ j\<lparr>state := ''cancelled''\<rparr> # post) ?w)"
    by (rule save_jobs_ok)
  show "cancel_job i w =
              Returns () (print (CancelledRunning i)
                (saved (pre @ j\<lparr>state := ''cancelled''\<rparr> # post) ?w))"
    using assms k s by (simp add: cancel_job_def load_jobs_table)
next
  assume h: "pid j = None \<or> (\<exists>p. pid j = Some p \<and> procs w p \<noteq> Alive)"
  then have "\<exists>e. kill_job (pid j) SIGTERM w = Raises e w"
    by (auto simp: kill_job_def os_kill_def split: pstatus.splits)
  then obtain e where k: "kill_job (pid j) SIGTERM w = Raises e w" ..
  show "cancel_job i w = Returns () (w\<lparr>out := out w @ [KillFailed (pid j)]\<rparr>)"
    using assms k by (simp add: cancel_job_def load_jobs_table print_def)
qed

text \<open>
  Claim C8 says that a delivered termination signal makes the job \<^verbatim>\<open>cancelled\<close> and the
  table persisted. The signal, the state change and the save share one \<^verbatim>\<open>try\<close> with a
  bare \<^verbatim>\<open>except\<close>: here the process is alive and receives \<^verbatim>\<open>SIGTERM\<close>, the save then
  raises, and the function prints that it failed to kill the process and leaves the
  persisted record \<^verbatim>\<open>running\<close>.
\<close>

theorem cancel_delivered_reported_failed:
  "state job_r = ''running'' \<and> procs world_unwritable 4242 = Alive \<and>
   cancel_job ''1b9d6bcd'' world_unwritable =
     Returns ()
       (world_unwritable\<lparr>signals := [(4242, SIGTERM)], ticks := 1,
                          out := [KillFailed (Some 4242)]\<rparr>) \<and>
   table_of (world_of (cancel_job ''1b9d6bcd'' world_unwritable)) = [job_r]"
  by (simp add: cancel_job_def load_jobs_table table_of_def kill_job_def os_kill_def
        save_jobs_def atomic_write_def tick_def print_def Let_def
        world_unwritable_def world0_def job_r_def job_a_def)

text \<open>
  Claim C9: a cancel request on a job that is neither queued nor running (so on every
  terminal job) only reports that the job cannot be cancelled: nothing is signalled,
  nothing is written, the record and the store are unchanged.
\<close>

theorem cancel_terminal_noop:
  assumes "find_job i [] (table_of w) = Some (pre, j, post)"
      and "state j \<noteq> ''queued''" and "state j \<noteq> ''running''"
  shows "cancel_job i w = Returns () (w\<lparr>out := out w @ [CannotCancel i (state j)]\<rparr>)"
  using assms by (simp add: cancel_job_def load_jobs_table print_def)

theorem cancel_terminal_noop_witness:
  "find_job ''1b9d6bcd'' [] (table_of (world0\<lparr>store := Some (Table [job_f])\<rparr>)) = Some ([], job_f, []) \<and>
   state job_f = ''finished'' \<and>
   cancel_job ''1b9d6bcd'' (world0\<lparr>store := Some (Table [job_f])\<rparr>) =
     Returns () (world0\<lparr>store := Some (Table [job_f]),
                        out := [CannotCancel ''1b9d6bcd'' ''finished'']\<rparr>)"
proof -
  let ?w = "world0\<lparr>store := Some (Table [job_f])\<rparr>"
  have f: "find_job ''1b9d6bcd'' [] (table_of ?w) = Some ([], job_f, [])"
    by (simp add: table_of_def job_f_def job_r_def job_a_def)
  have s: "state job_f = ''finished''"
    by (simp add: job_f_def)
  from cancel_terminal_noop [OF f] s f show ?thesis
    by (simp add: world0_fields)
qed

subsection \<open>Runner daemon\<close>

lemmas daemon_defs =
  scan_pass_def process_job_def supervise_def start_job_def start_failed_def popen_def
  wait_proc_def rename_log_def check_timeout_def save_jobs_def atomic_write_def
  kill_job_def os_kill_def pid_truthy_def time_truthy_def is_OSError_def tick_def
  print_def Let_def



text \<open>
  What the start block does when nothing fails: the record ends \<^verbatim>\<open>finished\<close> or
  \<^verbatim>\<open>failed\<close> by the exit status, its end time is its start time plus the time the child
  ran, and that table is the one persisted.
\<close>

lemma start_job_completes:
  assumes io: "\<And>op n. io_ok w op n" and b: "behaviour w (spawned w) = Some (d, rc)"
  shows "returned (start_job pre j post w) =
           Some (j\<lparr>state := (if rc = 0 then ''finished'' else ''failed''),
                   start_time := Some (clock w), pid := Some (new_pid w (spawned w)),
                   end_time := Some (clock w + d)\<rparr>) \<and>
         clock (world_of (start_job pre j post w)) = clock w + d \<and>
         table_of (world_of (start_job pre j post w)) =
           pre @ j\<lparr>state := (if rc = 0 then ''finished'' else ''failed''),
                   start_time := Some (clock w), pid := Some (new_pid w (spawned w)),
                   end_time := Some (clock w + d)\<rparr> # post"
  using io b
  by (simp add: start_job_def popen_def wait_proc_def rename_log_def save_jobs_def
        atomic_write_def tick_def print_def Let_def table_of_def)

text \<open>
  What the timeout block does for a record that a pass finds \<^verbatim>\<open>running\<close> with a live
  process and an expired timeout: the process is killed and the record becomes
  \<^verbatim>\<open>timeout\<close>, with the end time read then.
\<close>

lemma timeout_enforced_on_adopted_job:
  assumes "state j = ''running''" and "pid j = Some p" and "p \<noteq> 0" and "procs w p = Alive"
      and "start_time j = Some t" and "t \<noteq> 0"
      and "clock w - t > of_int (case timeout j of None \<Rightarrow> TIMEOUT | Some x \<Rightarrow> x)"
      and "save_ok w"
  shows "process_job pre j post w =
           Returns (j\<lparr>state := ''timeout'', end_time := Some (clock w)\<rparr>)
             (saved (pre @ j\<lparr>state := ''timeout'', end_time := Some (clock w)\<rparr> # post)
                (w\<lparr>signals := signals w @ [(p, SIG0), (p, SIGKILL)],
                   procs := (procs w)(p := NoProc),
                   out := out w @ [TimedOut (job_id j)]\<rparr>))"
proof -
  let ?w1 = "w\<lparr>signals := signals w @ [(p, SIG0)]\<rparr>"
  have k: "kill_job (pid j) SIG0 w = Returns () ?w1"
    using assms(2,4) by (simp add: kill_job_def os_kill_def)
  have q: "state j \<noteq> ''queued''"
    using assms(1) by simp
  from assms(8) have o: "io_ok w Mkstemp (ticks w)" "io_ok w Dump (Suc (ticks w))"
    "io_ok w Replace (Suc (Suc (ticks w)))"
    by (simp_all add: save_ok_def)
  show ?thesis
    using assms(1-7) k q o
    by (simp add: process_job_def supervise_def check_timeout_def pid_truthy_def
          time_truthy_def kill_job_def os_kill_def print_def Let_def save_jobs_ok
          save_ok_def saved_def)
qed

text \<open>
  A record that the pass finds \<^verbatim>\<open>queued\<close> and starts never becomes \<^verbatim>\<open>timeout\<close> in that
  pass, and the pass sends it no signal, whatever its timeout and however long it runs.
\<close>

lemma started_job_never_timed_out:
  assumes "state j = ''queued''" and "process_job pre j post w = Returns j' w'"
  shows "(state j' = ''finished'' \<or> state j' = ''failed'') \<and> signals w' = signals w"
  using assms
  by (auto simp: daemon_defs split: if_splits option.splits prod.splits)


text \<open>
  Claim C1 says that no job started with a finite timeout stays \<^verbatim>\<open>running\<close> past its
  deadline plus one poll interval, whatever the wait strategy. The daemon waits for the
  child it has started with \<^verbatim>\<open>p.wait()\<close> and reaches the timeout block only afterwards,
  when the record is no longer \<^verbatim>\<open>running\<close>. For \<^verbatim>\<open>sleep 100\<close> submitted with a timeout of
  one second the pass leaves the record \<^verbatim>\<open>finished\<close> a hundred seconds after its start,
  and no signal was ever sent; and with a child that never exits the pass blocks for ever,
  the persisted record \<^verbatim>\<open>running\<close> and the process alive.
\<close>

theorem blocking_wait_defeats_timeout:
  "timeout job_a = Some 1 \<and>
   returned (scan_pass world_sleep) =
     Some [job_a\<lparr>state := ''finished'', pid := Some 4242,
                 start_time := Some 1000, end_time := Some 1100\<rparr>] \<and>
   signals (world_of (scan_pass world_sleep)) = [] \<and>
   scan_pass world_forever =
     Hangs (world_forever
       \<lparr>store := Some (Table [job_a\<lparr>state := ''running'', pid := Some 4242,
                                      start_time := Some 1000\<rparr>]),
        running_area := {''1b9d6bcd.out'', ''1b9d6bcd.err''},
        procs := (procs world_forever)(4242 := Alive),
        launched := [(''1b9d6bcd'', ''sleep 100'')],
        out := [Starting ''1b9d6bcd'' ''sleep 100''],
        ticks := 6, spawned := 1\<rparr>)"
  by (simp add: daemon_defs load_jobs_table table_of_def world_forever_def world_sleep_def
        world0_def job_a_def insert_commute)














text \<open>
  Claim C4 says that a queued job whose process exits with status 0 ends \<^verbatim>\<open>finished\<close>.
  The renames of the log files are inside the \<^verbatim>\<open>try\<close> of the start block, so when one
  fails the handler written for a failed launch runs: here the child exits with status 0
  and the record ends \<^verbatim>\<open>failed\<close>.
\<close>

theorem exit_zero_marked_failed:
  "behaviour world_rename 0 = Some (2, 0) \<and>
   returned (scan_pass world_rename) =
     Some [job_q\<lparr>state := ''failed'', pid := Some 4242,
                 start_time := Some 1000, end_time := Some 1002\<rparr>]"
  by (simp add: daemon_defs load_jobs_table table_of_def world_rename_def world_fine_def world0_def job_q_def)

text \<open>
  Claim C7 says that a failing rename of a log file leaves the final state to the exit
  status alone. With the same job and the same exit status 0, the record ends
  \<^verbatim>\<open>finished\<close> when the renames succeed and \<^verbatim>\<open>failed\<close> when the second one fails, and
  the daemon then prints that the job failed to start.
\<close>

theorem rename_failure_alters_state:
  "returned (scan_pass world_err) =
     Some [job_q\<lparr>state := ''failed'', pid := Some 4242,
                 start_time := Some 1000, end_time := Some 1002\<rparr>] \<and>
   out (world_of (scan_pass world_err)) =
     [Starting ''7c9e6679'' ''echo ok'', FailedToStart ''7c9e6679'' (OSError RenameLog)] \<and>
   returned (scan_pass world_fine) =
     Some [job_q\<lparr>state := ''finished'', pid := Some 4242,
                 start_time := Some 1000, end_time := Some 1002\<rparr>] \<and>
   out (world_of (scan_pass world_fine)) =
     [Starting ''7c9e6679'' ''echo ok'', JobDone ''7c9e6679'' ''finished'']"
  by (simp add: daemon_defs load_jobs_table table_of_def world_err_def world_fine_def world0_def job_q_def)

end
